theory Spec2Isabelle
  imports Main
begin

section \<open>The Janus bridge of \<^verbatim>\<open>octoprint_obico/janus.py\<close>\<close>

text \<open>
  The class \<^verbatim>\<open>JanusConn\<close> supervises the Janus gateway process, keeps a websocket to it
  and routes the messages that arrive on that websocket. The methods become functions on a
  record of the object's fields. Calls to collaborators (the plugin, sentry, the alert queue,
  the websocket client, \<^verbatim>\<open>subprocess\<close>) are appended to the field \<open>trace\<close>, calls to the
  logger to the field \<open>logged\<close>; collaborators are taken to return normally unless a
  parameter of the function says otherwise.
\<close>

subsection \<open>JSON values as \<^verbatim>\<open>json.loads\<close> returns them\<close>

datatype pyfloat = Finite int int | Infinite bool | NaN
  \<comment> \<open>\<open>Finite m e\<close> is \<open>m * 2 ^ e\<close>; \<^verbatim>\<open>json.loads\<close> also accepts Infinity, -Infinity and NaN\<close>

datatype json =
    JNull
  | JBool bool
  | JInt int
  | JFloat pyfloat
  | JStr string
  | JArr "json list"
  | JObj "(string \<times> json) list"
  \<comment> \<open>a dict, keys unique; lookup is \<open>map_of\<close>\<close>

text \<open>Python's truth value of an object, as \<^verbatim>\<open>if to_plugin:\<close> tests it.\<close>

fun truthy :: "json \<Rightarrow> bool" where
  "truthy JNull = False"
| "truthy (JBool b) = b"
| "truthy (JInt i) = (i \<noteq> 0)"
| "truthy (JFloat (Finite m e)) = (m \<noteq> 0)"
| "truthy (JFloat (Infinite sg)) = True"
| "truthy (JFloat NaN) = True"
| "truthy (JStr str) = (str \<noteq> [])"
| "truthy (JArr xs) = (xs \<noteq> [])"
| "truthy (JObj kvs) = (kvs \<noteq> [])"

datatype py_exn =
    JSONDecodeError
  | AttributeError
  | OSError
  | JanusNotSupportedException string
  | Janus_quit int
  \<comment> \<open>\<^verbatim>\<open>Exception('Janus quit! This should not happen. Exit code: {}')\<close>\<close>
  | Janus_ws_closed
  \<comment> \<open>\<^verbatim>\<open>Exception('Janus WS connection closed!')\<close>\<close>

text \<open>\<^verbatim>\<open>x.get(k, d)\<close>: only a dict has the method, any other value raises AttributeError.\<close>

fun py_get :: "json \<Rightarrow> string \<Rightarrow> json \<Rightarrow> py_exn + json" where
  "py_get (JObj kvs) k d = Inr (case map_of kvs k of None \<Rightarrow> d | Some v \<Rightarrow> v)"
| "py_get _ k d = Inl AttributeError"

subsection \<open>Collaborators and the object's state\<close>

text \<open>
  Modelled from the spec: the class \<^verbatim>\<open>ExpoBackoff\<close> of \<^verbatim>\<open>utils.py\<close>, which is not among
  the sources. A policy holds a bound on the delay, a maximum attempt count and the attempt
  count; \<^verbatim>\<open>ExpoBackoff(120, max_attempts=20)\<close> gives the first two.
\<close>

record ExpoBackoff =
  max_seconds :: nat
  max_attempts :: nat
  attempts :: nat

text \<open>
  Modelled from the spec: \<^verbatim>\<open>ExpoBackoff.exhausted\<close>, not among the sources. It is true
  once the attempt count has reached the maximum attempt count.
\<close>

definition exhausted :: "ExpoBackoff \<Rightarrow> bool" where
  "exhausted b = (max_attempts b \<le> attempts b)"

text \<open>
  Modelled from the spec: \<^verbatim>\<open>ExpoBackoff.more\<close>, not among the sources. It records a
  failure and advances the attempt count; sleeping is left to the caller. The attempt count
  never exceeds the maximum: on a policy that is exhausted, \<open>more\<close> reports the exhaustion
  instead, by raising the error it was given, and the count stays.
\<close>

definition more_backoff :: "py_exn \<Rightarrow> ExpoBackoff \<Rightarrow> py_exn + ExpoBackoff" where
  "more_backoff e b = (if exhausted b then Inl e else Inr (b\<lparr>attempts := attempts b + 1\<rparr>))"

text \<open>
  Modelled from the spec: \<^verbatim>\<open>ExpoBackoff.reset\<close>, not among the sources. It clears the
  attempt count to zero.
\<close>

definition reset :: "ExpoBackoff \<Rightarrow> ExpoBackoff" where
  "reset b = b\<lparr>attempts := 0\<rparr>"

text \<open>
  Modelled from the spec: the class \<^verbatim>\<open>WebSocketClient\<close> of \<^verbatim>\<open>ws.py\<close>, which is not among
  the sources. A link is the socket's address and whether its transport reports connected,
  which is what its method \<^verbatim>\<open>connected\<close> returns.
\<close>

record WebSocketClient =
  ws_url :: string
  transport_connected :: bool

text \<open>
  How a call on a thread ends: it returns, it raises, or it stays in a blocking call for
  ever.
\<close>

datatype outcome = Returned | Raised py_exn | Blocked

datatype proc = Proc nat
  \<comment> \<open>a \<^verbatim>\<open>Popen\<close> object of the gateway; the number is the count of earlier launches\<close>

record alert =
  level :: string
  cause :: string
  title :: string
  text_of :: string
  info_url :: string
  buttons :: "string list"

datatype event =
    CaptureException
  | Add_alert alert bool
  | On_message_to_plugin json
  | Send_ws_msg_to_server "(string \<times> string) list"
  | Ws_connect string
  | Ws_send string
  | Ws_close
  | Popen_setup string string
  \<comment> \<open>\<^verbatim>\<open>setup.sh -A auth_token -V video_enabled\<close>\<close>
  | Popen_run
  \<comment> \<open>\<^verbatim>\<open>run.sh\<close>\<close>
  | Proc_terminate
  | Sleep nat
  \<comment> \<open>the retry decorator sleeps; the number is the value of \<^verbatim>\<open>backoff.expo\<close> before jitter\<close>

datatype log_entry =
    Debug string
  | Debug_msg json
  | Debug_janus string
  \<comment> \<open>\<^verbatim>\<open>_logger.debug('JANUS: ' + line.rstrip())\<close>, holding \<open>line\<close>\<close>
  | Warning string
  | Warning_exn py_exn

record JanusConn =
  janus_ws_backoff :: ExpoBackoff
  janus_ws :: "WebSocketClient option"
  janus_proc :: "proc option"
  shutting_down :: bool
  trace :: "event list"
  logged :: "log_entry list"

text \<open>The link's address, with \<^verbatim>\<open>JANUS_SERVER\<close> at its default.\<close>

definition janus_ws_url :: string where
  "janus_ws_url = ''ws://127.0.0.1:17058/''"

text \<open>\<^verbatim>\<open>__init__\<close>.\<close>

definition init :: JanusConn where
  "init = \<lparr>janus_ws_backoff = \<lparr>max_seconds = 120, max_attempts = 20, attempts = 0\<rparr>,
           janus_ws = None, janus_proc = None, shutting_down = False,
           trace = [], logged = []\<rparr>"

definition emit :: "event \<Rightarrow> JanusConn \<Rightarrow> JanusConn" where
  "emit ev s = s\<lparr>trace := trace s @ [ev]\<rparr>"

definition write_log :: "log_entry \<Rightarrow> JanusConn \<Rightarrow> JanusConn" where
  "write_log l s = s\<lparr>logged := logged s @ [l]\<rparr>"

subsection \<open>The relay link\<close>

text \<open>\<^verbatim>\<open>connected\<close>: \<^verbatim>\<open>self.janus_ws and self.janus_ws.connected()\<close>.\<close>

definition connected :: "JanusConn \<Rightarrow> bool" where
  "connected s = (case janus_ws s of None \<Rightarrow> False | Some w \<Rightarrow> transport_connected w)"

text \<open>
  \<^verbatim>\<open>pass_to_janus\<close>. The parameter \<open>send_exn\<close> is what the transport's \<^verbatim>\<open>send\<close> raises,
  if it raises.
\<close>

definition pass_to_janus :: "py_exn option \<Rightarrow> string \<Rightarrow> JanusConn \<Rightarrow> py_exn + JanusConn" where
  "pass_to_janus send_exn msg s =
     (if connected s then
        (case send_exn of None \<Rightarrow> Inr (emit (Ws_send msg) s) | Some e \<Rightarrow> Inl e)
      else Inr s)"

text \<open>
  \<^verbatim>\<open>start_janus_ws\<close>: a fresh client replaces the old one. The parameter \<open>c\<close> is whether
  the new client's transport reports connected.
\<close>

definition start_janus_ws :: "bool \<Rightarrow> JanusConn \<Rightarrow> JanusConn" where
  "start_janus_ws c s =
     (emit (Ws_connect janus_ws_url) s)
       \<lparr>janus_ws := Some \<lparr>ws_url = janus_ws_url, transport_connected = c\<rparr>\<rparr>"

text \<open>
  The callback \<^verbatim>\<open>on_close\<close> of \<^verbatim>\<open>start_janus_ws\<close>. It calls \<^verbatim>\<open>more\<close> first; what
  \<^verbatim>\<open>more\<close> raises leaves the callback before the flag is read.
\<close>

definition on_close :: "bool \<Rightarrow> JanusConn \<Rightarrow> outcome \<times> JanusConn" where
  "on_close c s =
     (case more_backoff Janus_ws_closed (janus_ws_backoff s) of
        Inl e \<Rightarrow> (Raised e, s)
      | Inr b \<Rightarrow>
          (let s1 = s\<lparr>janus_ws_backoff := b\<rparr> in
           if \<not> shutting_down s1 then
             (Returned, start_janus_ws c (write_log (Warning ''Reconnecting to Janus WS.'') s1))
           else (Returned, s1)))"

text \<open>
  A sequence of close events, each with the transport state of the link it opens. Each close
  is the close of the link that the callback before it opened, so the sequence ends at a
  callback that raises.
\<close>

fun on_closes :: "bool list \<Rightarrow> JanusConn \<Rightarrow> outcome \<times> JanusConn" where
  "on_closes [] s = (Returned, s)"
| "on_closes (c # cs) s =
     (case on_close c s of
        (Returned, s') \<Rightarrow> on_closes cs s'
      | r \<Rightarrow> r)"

text \<open>\<^verbatim>\<open>shutdown\<close>; an error of \<^verbatim>\<open>terminate\<close> is swallowed.\<close>

definition shutdown :: "JanusConn \<Rightarrow> JanusConn" where
  "shutdown s =
     (let s1 = s\<lparr>shutting_down := True\<rparr>;
          s2 = (case janus_ws s1 of None \<Rightarrow> s1 | Some w \<Rightarrow> emit Ws_close s1);
          s3 = s2\<lparr>janus_ws := None\<rparr>;
          s4 = (case janus_proc s3 of None \<Rightarrow> s3 | Some p \<Rightarrow> emit Proc_terminate s3)
      in s4\<lparr>janus_proc := None\<rparr>)"

subsection \<open>The message router\<close>

text \<open>
  \<^verbatim>\<open>msg.get('plugindata', {}).get('data', {}).get('thespaghettidetective', {})\<close>
\<close>

definition to_plugin_of :: "json \<Rightarrow> py_exn + json" where
  "to_plugin_of msg =
     (case py_get msg ''plugindata'' (JObj []) of
        Inl e \<Rightarrow> Inl e
      | Inr a \<Rightarrow>
          (case py_get a ''data'' (JObj []) of
             Inl e \<Rightarrow> Inl e
           | Inr b \<Rightarrow> py_get b ''thespaghettidetective'' (JObj [])))"

text \<open>
  The body of the \<^verbatim>\<open>try\<close> of \<^verbatim>\<open>process_janus_msg\<close>. \<open>loads\<close> is \<^verbatim>\<open>json.loads\<close>, \<open>None\<close>
  where it raises. The first component of the result is the truth value of what the
  method returns: it returns \<^verbatim>\<open>None\<close> on the internal path (a bare \<^verbatim>\<open>return\<close>) and on the
  relay path (the end of the body).
\<close>

definition process_janus_msg_try ::
  "(string \<Rightarrow> json option) \<Rightarrow> string \<Rightarrow> JanusConn \<Rightarrow> py_exn + (bool \<times> JanusConn)" where
  "process_janus_msg_try loads raw_msg s =
     (case loads raw_msg of
        None \<Rightarrow> Inl JSONDecodeError
      | Some msg \<Rightarrow>
          (case to_plugin_of msg of
             Inl e \<Rightarrow> Inl e
           | Inr to_plugin \<Rightarrow>
               if truthy to_plugin then
                 Inr (False,
                   emit (On_message_to_plugin to_plugin)
                     (write_log (Debug_msg msg)
                       (write_log (Debug ''Processing WebRTC data channel msg from client:'') s)))
               else
                 Inr (False,
                   emit (Send_ws_msg_to_server [(''janus'', raw_msg)])
                     (write_log (Debug_msg msg)
                       (write_log (Debug ''Relaying Janus msg'') s)))))"

text \<open>
  \<^verbatim>\<open>process_janus_msg\<close>: the bare \<^verbatim>\<open>except\<close> catches every exception of the body, reports
  it and falls off the end of the method, which returns \<^verbatim>\<open>None\<close>.
\<close>

definition process_janus_msg ::
  "(string \<Rightarrow> json option) \<Rightarrow> string \<Rightarrow> JanusConn \<Rightarrow> bool \<times> JanusConn" where
  "process_janus_msg loads raw_msg s =
     (case process_janus_msg_try loads raw_msg s of
        Inl e \<Rightarrow> (False, emit CaptureException s)
      | Inr r \<Rightarrow> r)"

text \<open>The callback \<^verbatim>\<open>on_message\<close> of \<^verbatim>\<open>start_janus_ws\<close>.\<close>

definition on_message :: "(string \<Rightarrow> json option) \<Rightarrow> string \<Rightarrow> JanusConn \<Rightarrow> JanusConn" where
  "on_message loads msg s =
     (case process_janus_msg loads msg s of
        (r, s') \<Rightarrow> if r then s'\<lparr>janus_ws_backoff := reset (janus_ws_backoff s')\<rparr> else s')"

subsection \<open>The gateway process supervisor\<close>

text \<open>
  \<^verbatim>\<open>run_janus_forever\<close> runs on a thread of its own while \<^verbatim>\<open>shutdown\<close> may be called from
  another. The supervisor's inputs are what its blocking calls return and where the other
  thread's \<^verbatim>\<open>shutdown\<close> falls between its steps:
  \<^item> \<open>iter\<close>, one pass of the \<^verbatim>\<open>while\<close> loop: \<open>stop1\<close> says that \<^verbatim>\<open>shutdown\<close> runs just
    before the loop's test, \<open>line\<close> is what \<^verbatim>\<open>readline\<close> returns (empty at end of file),
    \<open>stop2\<close> says that \<^verbatim>\<open>shutdown\<close> runs between \<^verbatim>\<open>readline\<close> and the tests that follow;
  \<^item> \<open>attempt\<close>, one call of \<^verbatim>\<open>run_janus\<close>: \<open>stop0\<close> says that \<^verbatim>\<open>shutdown\<close> runs before
    the call (while the decorator sleeps, or during the set-up), \<open>popen_raises\<close> that
    \<^verbatim>\<open>Popen\<close> raises, \<open>iters\<close> are the passes of the loop, \<open>returncode\<close> is what \<^verbatim>\<open>wait\<close>
    returns, \<open>None\<close> when the process never exits.
  A thread that stays in a blocking call for ever is the outcome \<open>Blocked\<close>.
\<close>

record iter =
  stop1 :: bool
  line :: string
  stop2 :: bool

record attempt =
  stop0 :: bool
  popen_raises :: bool
  iters :: "iter list"
  returncode :: "int option"

record setup_env =
  pi_version :: bool
  disable_video_streaming :: bool
  \<comment> \<open>the setting \<^verbatim>\<open>is True\<close>\<close>
  auth_token :: string
  setup_popen_raises :: bool
  setup_returncode :: int
  stdoutdata :: string

text \<open>\<^verbatim>\<open>setup_janus_config\<close>.\<close>

definition setup_janus_config :: "setup_env \<Rightarrow> JanusConn \<Rightarrow> outcome \<times> JanusConn" where
  "setup_janus_config env s =
     (let video_enabled =
            (if pi_version env \<and> \<not> disable_video_streaming env then ''true'' else ''false'');
          s1 = emit (Popen_setup (auth_token env) video_enabled) s
      in if setup_popen_raises env then (Raised OSError, s1)
         else if setup_returncode env \<noteq> 0 then
           (Raised (JanusNotSupportedException (stdoutdata env)), s1)
         else (Returned, s1))"

text \<open>
  The \<^verbatim>\<open>while\<close> loop of \<^verbatim>\<open>run_janus\<close>, with \<open>num_line_output\<close> as an argument. When the
  passes given are used up, the loop ends if the flag is set and otherwise \<^verbatim>\<open>readline\<close>
  does not return.
\<close>

fun drain :: "int option \<Rightarrow> nat \<Rightarrow> iter list \<Rightarrow> JanusConn \<Rightarrow> outcome \<times> JanusConn" where
  "drain rc num_line_output [] s = (if shutting_down s then (Returned, s) else (Blocked, s))"
| "drain rc num_line_output (it # its) s =
     (let s1 = (if stop1 it then shutdown s else s) in
      if shutting_down s1 then (Returned, s1)
      else
        let s2 = (if stop2 it then shutdown s1 else s1) in
        if line it \<noteq> [] \<and> num_line_output < 1000 then
          drain rc (num_line_output + 1) its (write_log (Debug_janus (line it)) s2)
        else if \<not> shutting_down s2 then
          (case rc of None \<Rightarrow> (Blocked, s2) | Some c \<Rightarrow> (Raised (Janus_quit c), s2))
        else drain rc num_line_output its s2)"

definition launches :: "event list \<Rightarrow> nat" where
  "launches tr = length (filter (\<lambda>ev. ev = Popen_run) tr)"

text \<open>\<^verbatim>\<open>run_janus\<close>, one call of the undecorated function.\<close>

definition run_janus :: "attempt \<Rightarrow> JanusConn \<Rightarrow> outcome \<times> JanusConn" where
  "run_janus a s =
     (let s0 = (if stop0 a then shutdown s else s);
          s1 = emit Popen_run (write_log (Debug ''Popen: run.sh'') s0)
      in if popen_raises a then (Raised OSError, s1)
         else drain (returncode a) 0 (iters a) (s1\<lparr>janus_proc := Some (Proc (launches (trace s0)))\<rparr>))"

text \<open>An attempt with nothing given: the process starts, writes nothing and stays.\<close>

definition idle :: attempt where
  "idle = \<lparr>stop0 = False, popen_raises = False, iters = [], returncode = None\<rparr>"

text \<open>
  \<^verbatim>\<open>@backoff.on_exception(backoff.expo, Exception, max_tries=...)\<close> around \<^verbatim>\<open>run_janus\<close>, a
  decorator of the library \<^verbatim>\<open>backoff\<close>: it calls the function, and on an exception gives up
  and re-raises when the number of tries equals \<open>max_tries\<close>, and otherwise sleeps for the next
  value of \<^verbatim>\<open>expo\<close> (1, 2, 4, ..., jittered) and calls again. \<open>tries\<close> counts the calls
  made before this one.
\<close>

fun on_exception :: "nat \<Rightarrow> nat \<Rightarrow> attempt list \<Rightarrow> JanusConn \<Rightarrow> outcome \<times> JanusConn" where
  "on_exception max_tries tries [] s = run_janus idle s"
| "on_exception max_tries tries (a # as) s =
     (case run_janus a s of
        (Raised x, s') \<Rightarrow>
          if Suc tries = max_tries then (Raised x, s')
          else on_exception max_tries (Suc tries) as (emit (Sleep (2 ^ tries)) s')
      | r \<Rightarrow> r)"

definition streaming_alert :: alert where
  "streaming_alert =
     \<lparr>level = ''warning'', cause = ''streaming'', title = ''Webcam Streaming Failed'',
      text_of = ''The webcam streaming failed to start. Obico is now streaming your webcam at 0.1 FPS.'',
      info_url = ''https://www.obico.io/docs/user-guides/warnings/webcam-streaming-failed-to-start/'',
      buttons = [''more_info'', ''never'', ''ok'']\<rparr>"

text \<open>The two \<^verbatim>\<open>except\<close> clauses of \<^verbatim>\<open>run_janus_forever\<close>, in their order.\<close>

fun handle_exn :: "py_exn \<Rightarrow> JanusConn \<Rightarrow> JanusConn" where
  "handle_exn (JanusNotSupportedException out) s =
     write_log (Warning_exn (JanusNotSupportedException out)) s"
| "handle_exn ex s = emit (Add_alert streaming_alert True) (emit CaptureException s)"

text \<open>\<^verbatim>\<open>run_janus_forever\<close>, the body of the supervisor's thread.\<close>

definition run_janus_forever :: "setup_env \<Rightarrow> attempt list \<Rightarrow> JanusConn \<Rightarrow> outcome \<times> JanusConn" where
  "run_janus_forever env atts s =
     (case setup_janus_config env s of
        (Raised e, s1) \<Rightarrow> (Returned, handle_exn e s1)
      | (Blocked, s1) \<Rightarrow> (Blocked, s1)
      | (Returned, s1) \<Rightarrow>
          (case on_exception 5 0 atts s1 of
             (Raised e, s2) \<Rightarrow> (Returned, handle_exn e s2)
           | r \<Rightarrow> r))"

subsection \<open>The routing rule in the specification's words\<close>

text \<open>
  The value of a key of an envelope, and the value at the nested path
  \<^verbatim>\<open>plugindata.data.thespaghettidetective\<close>, \<open>None\<close> where the envelope does not contain
  the path.
\<close>

definition field :: "json \<Rightarrow> string \<Rightarrow> json option" where
  "field j k = (case j of JObj kvs \<Rightarrow> map_of kvs k | _ \<Rightarrow> None)"

definition path_value :: "json \<Rightarrow> json option" where
  "path_value msg =
     (case field msg ''plugindata'' of
        None \<Rightarrow> None
      | Some a \<Rightarrow>
          (case field a ''data'' of
             None \<Rightarrow> None
           | Some b \<Rightarrow> field b ''thespaghettidetective''))"

definition is_obj :: "json \<Rightarrow> bool" where
  "is_obj j = (case j of JObj kvs \<Rightarrow> True | _ \<Rightarrow> False)"

text \<open>
  An envelope on which the three lookups can be made: it is an object, and so is what it
  holds under \<^verbatim>\<open>plugindata\<close> and, under that, \<^verbatim>\<open>data\<close>, where they are present.
\<close>

definition envelope_ok :: "json \<Rightarrow> bool" where
  "envelope_ok msg =
     (is_obj msg \<and>
      (case field msg ''plugindata'' of
         None \<Rightarrow> True
       | Some a \<Rightarrow> is_obj a \<and> (case field a ''data'' of None \<Rightarrow> True | Some b \<Rightarrow> is_obj b)))"

subsection \<open>Counting the events of a trace\<close>

fun is_alert :: "event \<Rightarrow> bool" where
  "is_alert (Add_alert a p) = True"
| "is_alert _ = False"

fun is_sleep :: "event \<Rightarrow> bool" where
  "is_sleep (Sleep n) = True"
| "is_sleep _ = False"


fun is_janus_line :: "log_entry \<Rightarrow> bool" where
  "is_janus_line (Debug_janus l) = True"
| "is_janus_line _ = False"

definition alerts :: "event list \<Rightarrow> nat" where
  "alerts tr = length (filter is_alert tr)"

definition captures :: "event list \<Rightarrow> nat" where
  "captures tr = length (filter (\<lambda>ev. ev = CaptureException) tr)"

definition sleeps :: "event list \<Rightarrow> event list" where
  "sleeps tr = filter is_sleep tr"


definition janus_lines :: "log_entry list \<Rightarrow> nat" where
  "janus_lines ls = length (filter is_janus_line ls)"

subsection \<open>Schedules used as examples\<close>

text \<open>
  A platform on which the set-up succeeds, one on which \<^verbatim>\<open>setup.sh\<close> exits with 1, and one
  on which \<^verbatim>\<open>setup.sh\<close> cannot be started.
\<close>

definition supported_env :: setup_env where
  "supported_env = \<lparr>pi_version = True, disable_video_streaming = False, auth_token = ''token'',
     setup_popen_raises = False, setup_returncode = 0, stdoutdata = []\<rparr>"

definition unsupported_env :: setup_env where
  "unsupported_env = \<lparr>pi_version = False, disable_video_streaming = False, auth_token = ''token'',
     setup_popen_raises = False, setup_returncode = 1, stdoutdata = ''unsupported''\<rparr>"


text \<open>The gateway starts and exits with 1 at once: the first \<^verbatim>\<open>readline\<close> is at end of file.\<close>

definition crash_attempt :: attempt where
  "crash_attempt = \<lparr>stop0 = False, popen_raises = False,
     iters = [\<lparr>stop1 = False, line = [], stop2 = False\<rparr>], returncode = Some 1\<rparr>"

text \<open>\<^verbatim>\<open>shutdown\<close> is called before this call of \<^verbatim>\<open>run_janus\<close> starts.\<close>

definition stopped_attempt :: attempt where
  "stopped_attempt = \<lparr>stop0 = True, popen_raises = False, iters = [], returncode = None\<rparr>"

text \<open>
  The gateway writes \<open>k\<close> lines and no end of file; \<^verbatim>\<open>wait\<close>, if it is called, returns 0.
\<close>

definition chatty_attempt :: "nat \<Rightarrow> attempt" where
  "chatty_attempt k = \<lparr>stop0 = False, popen_raises = False,
     iters = replicate k \<lparr>stop1 = False, line = ''x'', stop2 = False\<rparr>, returncode = Some 0\<rparr>"

section \<open>Properties of the message router\<close>

lemma py_get_obj:
  "is_obj j \<Longrightarrow> py_get j k d = Inr (case field j k of None \<Rightarrow> d | Some v \<Rightarrow> v)"
  by (cases j) (simp_all add: is_obj_def field_def)

lemma to_plugin_of_ok:
  assumes "envelope_ok msg"
  shows "to_plugin_of msg = Inr (case path_value msg of None \<Rightarrow> JObj [] | Some v \<Rightarrow> v)"
  using assms
  by (auto simp: envelope_ok_def to_plugin_of_def path_value_def py_get_obj is_obj_def
        field_def split: option.splits)

lemma path_value_ok: "path_value msg = Some v \<Longrightarrow> to_plugin_of msg = Inr v"
  by (auto simp: to_plugin_of_def path_value_def field_def split: option.splits json.splits)

lemma process_janus_msg_returns_None: "fst (process_janus_msg loads raw_msg s) = False"
  by (simp add: process_janus_msg_def process_janus_msg_try_def
        split: option.splits sum.splits)

lemma on_message_backoff:
  "janus_ws_backoff (on_message loads raw_msg s) = janus_ws_backoff s"
  by (simp add: on_message_def process_janus_msg_def process_janus_msg_try_def emit_def
        write_log_def split: option.splits sum.splits)

text \<open>
  C1, at a relay message: after three closes of the link the attempt count is 3; the message
  \<^verbatim>\<open>{}\<close> parses, has no internal payload and is forwarded to the server, and the attempt
  count after \<^verbatim>\<open>on_message\<close> is still 3, not 0: \<^verbatim>\<open>process_janus_msg\<close> returns \<^verbatim>\<open>None\<close> on
  the relay path, so \<^verbatim>\<open>on_message\<close> does not call \<^verbatim>\<open>reset\<close>.
\<close>

theorem on_message_relay_keeps_attempts:
  "fst (on_closes [True, True, True] init) = Returned \<and>
   attempts (janus_ws_backoff (snd (on_closes [True, True, True] init))) = 3 \<and>
   trace (on_message (\<lambda>r. Some (JObj [])) ''{}'' (snd (on_closes [True, True, True] init))) =
     trace (snd (on_closes [True, True, True] init)) @
       [Send_ws_msg_to_server [(''janus'', ''{}'')]] \<and>
   attempts (janus_ws_backoff
     (on_message (\<lambda>r. Some (JObj [])) ''{}'' (snd (on_closes [True, True, True] init)))) = 3"
  by (simp add: on_message_def process_janus_msg_def process_janus_msg_try_def to_plugin_of_def
        on_close_def start_janus_ws_def more_backoff_def exhausted_def init_def emit_def
        write_log_def)

text \<open>
  C2 as stated fails: the envelope
  \<^verbatim>\<open>{"plugindata": {"data": {"thespaghettidetective": 0}}}\<close> contains the path, and it is
  forwarded to the server and not handed to the internal handler.
\<close>

theorem present_falsy_payload_goes_to_server:
  \<open>path_value (JObj [(''plugindata'', JObj [(''data'', JObj [(''thespaghettidetective'', JInt 0)])])])
     = Some (JInt 0) \<and>
   trace (snd (process_janus_msg
     (\<lambda>r. Some (JObj [(''plugindata'', JObj [(''data'', JObj [(''thespaghettidetective'', JInt 0)])])]))
     ''{"plugindata": {"data": {"thespaghettidetective": 0}}}'' init))
     = [Send_ws_msg_to_server [(''janus'', ''{"plugindata": {"data": {"thespaghettidetective": 0}}}'')]]\<close>
  by (simp add: path_value_def field_def process_janus_msg_def process_janus_msg_try_def
        to_plugin_of_def init_def emit_def write_log_def)

text \<open>
  C2, amended: for every message that parses to an envelope on which the lookups can be made
  (an object whose \<^verbatim>\<open>plugindata\<close> and \<^verbatim>\<open>plugindata.data\<close>, where present, are objects),
  exactly one dispatch is made. If the value at \<^verbatim>\<open>plugindata.data.thespaghettidetective\<close>
  is present and truthy, that value goes to the internal handler and nothing to the server;
  otherwise the raw text goes to the server as \<^verbatim>\<open>{"janus": raw}\<close>, unchanged, and nothing
  to the internal handler.
\<close>

theorem process_janus_msg_routes:
  assumes "loads raw_msg = Some msg" and "envelope_ok msg"
  shows "trace (snd (process_janus_msg loads raw_msg s)) = trace s @
     [case path_value msg of
        None \<Rightarrow> Send_ws_msg_to_server [(''janus'', raw_msg)]
      | Some v \<Rightarrow> if truthy v then On_message_to_plugin v
                  else Send_ws_msg_to_server [(''janus'', raw_msg)]]"
  using assms
  by (simp add: process_janus_msg_def process_janus_msg_try_def to_plugin_of_ok emit_def
        write_log_def split: option.splits)

theorem process_janus_msg_routes_witness:
  "envelope_ok (JObj [(''plugindata'', JObj [(''data'', JObj [(''thespaghettidetective'', JStr ''hi'')])])]) \<and>
   trace (snd (process_janus_msg
     (\<lambda>r. Some (JObj [(''plugindata'', JObj [(''data'', JObj [(''thespaghettidetective'', JStr ''hi'')])])]))
     ''raw'' init)) = [On_message_to_plugin (JStr ''hi'')]"
  using process_janus_msg_routes [of
    "\<lambda>r. Some (JObj [(''plugindata'', JObj [(''data'', JObj [(''thespaghettidetective'', JStr ''hi'')])])])"
    "''raw''"
    "JObj [(''plugindata'', JObj [(''data'', JObj [(''thespaghettidetective'', JStr ''hi'')])])]"
    init]
  by (simp add: envelope_ok_def is_obj_def field_def path_value_def init_def)

text \<open>
  C10: a message that parses and holds a falsy value at
  \<^verbatim>\<open>plugindata.data.thespaghettidetective\<close> is forwarded to the server, and the internal
  handler is not called for it.
\<close>

theorem falsy_payload_relayed:
  assumes "loads raw_msg = Some msg" and "path_value msg = Some v" and "\<not> truthy v"
  shows "trace (snd (process_janus_msg loads raw_msg s)) =
           trace s @ [Send_ws_msg_to_server [(''janus'', raw_msg)]]"
  using assms
  by (simp add: process_janus_msg_def process_janus_msg_try_def path_value_ok emit_def
        write_log_def)

theorem falsy_payload_relayed_witness:
  "path_value (JObj [(''plugindata'', JObj [(''data'', JObj [(''thespaghettidetective'', JObj [])])])])
     = Some (JObj []) \<and> \<not> truthy (JObj []) \<and>
   trace (snd (process_janus_msg
     (\<lambda>r. Some (JObj [(''plugindata'', JObj [(''data'', JObj [(''thespaghettidetective'', JObj [])])])]))
     ''raw'' init)) = [Send_ws_msg_to_server [(''janus'', ''raw'')]]"
  using falsy_payload_relayed [of
    "\<lambda>r. Some (JObj [(''plugindata'', JObj [(''data'', JObj [(''thespaghettidetective'', JObj [])])])])"
    "''raw''"
    "JObj [(''plugindata'', JObj [(''data'', JObj [(''thespaghettidetective'', JObj [])])])]"
    "JObj []" init]
  by (simp add: path_value_def field_def init_def)

text \<open>
  C6: a message that does not parse is reported to sentry once and nothing else happens:
  no call of the internal handler or of the server sink, \<^verbatim>\<open>process_janus_msg\<close> and
  \<^verbatim>\<open>on_message\<close> return, and the link and the backoff are as before.
\<close>

theorem unparseable_msg_dropped:
  assumes "loads raw_msg = None"
  shows "process_janus_msg loads raw_msg s = (False, emit CaptureException s) \<and>
         on_message loads raw_msg s = emit CaptureException s \<and>
         trace (on_message loads raw_msg s) = trace s @ [CaptureException] \<and>
         janus_ws (on_message loads raw_msg s) = janus_ws s \<and>
         connected (on_message loads raw_msg s) = connected s"
  using assms
  by (simp add: on_message_def process_janus_msg_def process_janus_msg_try_def emit_def
        connected_def)

theorem unparseable_msg_dropped_witness:
  "trace (on_message (\<lambda>r. None) ''{oops'' (start_janus_ws True init)) =
     [Ws_connect janus_ws_url, CaptureException] \<and>
   connected (on_message (\<lambda>r. None) ''{oops'' (start_janus_ws True init))"
  using unparseable_msg_dropped [of "\<lambda>r. None" "''{oops''" "start_janus_ws True init"]
  by (simp add: start_janus_ws_def emit_def init_def connected_def)

section \<open>Properties of the relay link\<close>

text \<open>
  C9: when no link exists, or its transport reports that it is not connected,
  \<^verbatim>\<open>pass_to_janus\<close> returns without an error and leaves the object, its trace and its log
  as they were: nothing is sent and nothing is kept for later.
\<close>

theorem pass_to_janus_not_connected:
  "\<not> connected s \<Longrightarrow> pass_to_janus send_exn msg s = Inr s"
  by (simp add: pass_to_janus_def)

theorem pass_to_janus_not_connected_witness:
  "\<not> connected (start_janus_ws False init) \<and>
   pass_to_janus (Some OSError) ''msg'' (start_janus_ws False init) = Inr (start_janus_ws False init)"
  using pass_to_janus_not_connected [of "start_janus_ws False init" "Some OSError" "''msg''"]
  by (simp add: connected_def start_janus_ws_def)

lemma more_backoff_invariant:
  "attempts b \<le> max_attempts b \<Longrightarrow> more_backoff e b = Inr b' \<Longrightarrow>
   attempts b' \<le> max_attempts b' \<and> max_attempts b' = max_attempts b"
  by (auto simp: more_backoff_def exhausted_def split: if_splits)



lemma on_close_after_shutdown: "shutting_down s \<Longrightarrow> trace (snd (on_close c s)) = trace s"
  by (simp add: on_close_def Let_def split: sum.splits)






section \<open>Properties of the process supervisor\<close>

subsection \<open>What a call of \<^verbatim>\<open>shutdown\<close>, the loop and one call of \<^verbatim>\<open>run_janus\<close> add\<close>


lemma shutdown_logged: "logged (shutdown s) = logged s"
  by (simp add: shutdown_def emit_def Let_def split: option.splits)

lemma shutdown_flag: "shutting_down (shutdown s)"
  by (simp add: shutdown_def emit_def Let_def split: option.splits)


lemma drain_lines_bound:
  "janus_lines (logged (snd (drain rc n its s))) \<le> janus_lines (logged s) + (1000 - n)"
proof (induction its arbitrary: n s)
  case Nil
  then show ?case by simp
next
  case (Cons it its)
  have a: "n < 1000 \<Longrightarrow> janus_lines (logged (snd (drain rc (Suc n) its s'))) \<le> janus_lines (logged s') + (1000 - Suc n)" for s'
    by (rule Cons.IH)
  have b: "janus_lines (logged (snd (drain rc n its s'))) \<le> janus_lines (logged s') + (1000 - n)" for s'
    by (rule Cons.IH)
  show ?case
    using a[of "write_log (Debug_janus (line it)) s"] a[of "write_log (Debug_janus (line it)) (shutdown s)"]
      b[of "shutdown s"] b[of s]
    by (auto simp add: Let_def shutdown_logged shutdown_flag write_log_def janus_lines_def split: option.splits)
qed








lemma drain_replicate:
  "\<not> shutting_down s \<Longrightarrow> l \<noteq> [] \<Longrightarrow> n + k \<le> 1000 \<Longrightarrow>
   drain rc n (replicate k \<lparr>stop1 = False, line = l, stop2 = False\<rparr> @ rest) s =
   drain rc (n + k) rest (s\<lparr>logged := logged s @ replicate k (Debug_janus l)\<rparr>)"
proof (induction k arbitrary: n s)
  case 0
  then show ?case by simp
next
  case (Suc k)
  have "drain rc n (replicate (Suc k) \<lparr>stop1 = False, line = l, stop2 = False\<rparr> @ rest) s =
        drain rc (Suc n) (replicate k \<lparr>stop1 = False, line = l, stop2 = False\<rparr> @ rest)
          (write_log (Debug_janus l) s)"
    using Suc.prems by simp
  also have "\<dots> = drain rc (Suc n + k) rest
      ((write_log (Debug_janus l) s)\<lparr>logged := logged (write_log (Debug_janus l) s) @ replicate k (Debug_janus l)\<rparr>)"
    using Suc.prems by (intro Suc.IH) (simp_all add: write_log_def)
  finally show ?case by (simp add: write_log_def replicate_append_same)
qed

lemma drain_eof:
  "\<not> shutting_down s \<Longrightarrow> \<not> stop1 it \<Longrightarrow> \<not> stop2 it \<Longrightarrow> line it = [] \<Longrightarrow>
   drain (Some c) n (it # its) s = (Raised (Janus_quit c), s)"
  by simp

lemma drain_after_shutdown: "shutting_down s \<Longrightarrow> fst (drain rc n its s) = Returned"
  by (cases its) (simp_all add: Let_def shutdown_flag)











subsection \<open>The output loop\<close>

text \<open>
  C7, at a gateway that writes 1001 lines: with 1000 lines the loop logs them all and goes on
  reading; the line after those is not logged and not dropped either, since it takes the
  \<^verbatim>\<open>elif\<close> branch: the loop calls \<^verbatim>\<open>wait\<close> and raises \<^verbatim>\<open>Janus quit!\<close>, though no end of
  file was read.
\<close>

theorem line_1001_raises_janus_quit:
  "fst (run_janus (chatty_attempt 1000) init) = Blocked \<and>
   fst (run_janus (chatty_attempt 1001) init) = Raised (Janus_quit 0) \<and>
   janus_lines (logged (snd (run_janus (chatty_attempt 1001) init))) = 1000"
proof -
  let ?it = "\<lparr>stop1 = False, line = ''x'', stop2 = False\<rparr>"
  let ?s = "(emit Popen_run (write_log (Debug ''Popen: run.sh'') init))\<lparr>janus_proc := Some (Proc (launches (trace init)))\<rparr>"
  have ns: "\<not> shutting_down ?s" by (simp add: init_def emit_def write_log_def)
  have a: "drain (Some 0) 0 (replicate 1000 ?it @ rest) ?s =
        drain (Some 0) 1000 rest (?s\<lparr>logged := logged ?s @ replicate 1000 (Debug_janus ''x'')\<rparr>)" for rest
    using drain_replicate[OF ns, of "''x''" 0 1000 "Some 0" rest] by simp
  have r1: "replicate 1001 ?it = replicate 1000 ?it @ [?it]"
    by (simp add: replicate_append_same flip: replicate_Suc)
  have b: "run_janus (chatty_attempt k) init = drain (Some 0) 0 (replicate k ?it) ?s" for k
    by (simp add: run_janus_def chatty_attempt_def Let_def init_def)
  have c1: "run_janus (chatty_attempt 1000) init =
      (Blocked, ?s\<lparr>logged := logged ?s @ replicate 1000 (Debug_janus ''x'')\<rparr>)"
    using a[of "[]"] ns by (simp add: b)
  have c2: "run_janus (chatty_attempt 1001) init =
      (Raised (Janus_quit 0), ?s\<lparr>logged := logged ?s @ replicate 1000 (Debug_janus ''x'')\<rparr>)"
    using a[of "[?it]"] ns by (simp add: b r1)
  show ?thesis
    unfolding c1 c2 by (simp add: janus_lines_def init_def emit_def write_log_def)
qed

subsection \<open>Provisioning\<close>

text \<open>
  C3 as stated fails: when \<^verbatim>\<open>setup.sh\<close> exits with 1, no alert is enqueued.
\<close>

theorem unsupported_platform_no_alert: "alerts (trace (snd (run_janus_forever unsupported_env [] init))) = 0"
  by (simp add: run_janus_forever_def setup_janus_config_def unsupported_env_def init_def emit_def
        write_log_def alerts_def Let_def)

text \<open>
  C3, amended: when the provisioning step exits non-zero, the supervisor logs the failure as
  a warning and returns; the gateway is not launched, the retry decorator does not sleep,
  and neither a crash report nor an alert is made.
\<close>

theorem setup_unsupported_returns:
  assumes "\<not> setup_popen_raises env" and "setup_returncode env \<noteq> 0"
  shows "fst (run_janus_forever env atts s) = Returned \<and>
     trace (snd (run_janus_forever env atts s)) = trace s @ [Popen_setup (auth_token env)
        (if pi_version env \<and> \<not> disable_video_streaming env then ''true'' else ''false'')] \<and>
     logged (snd (run_janus_forever env atts s)) = logged s @ [Warning_exn (JanusNotSupportedException (stdoutdata env))] \<and>
     launches (trace (snd (run_janus_forever env atts s))) = launches (trace s) \<and>
     sleeps (trace (snd (run_janus_forever env atts s))) = sleeps (trace s) \<and>
     captures (trace (snd (run_janus_forever env atts s))) = captures (trace s) \<and>
     alerts (trace (snd (run_janus_forever env atts s))) = alerts (trace s)"
  using assms
  by (simp add: run_janus_forever_def setup_janus_config_def emit_def write_log_def Let_def
        launches_def sleeps_def captures_def alerts_def)

theorem setup_unsupported_returns_witness:
  "fst (run_janus_forever unsupported_env [crash_attempt] init) = Returned \<and>
   trace (snd (run_janus_forever unsupported_env [crash_attempt] init)) = [Popen_setup ''token'' ''false'']
   \<and> logged (snd (run_janus_forever unsupported_env [crash_attempt] init)) = [Warning_exn (JanusNotSupportedException ''unsupported'')]"
  using setup_unsupported_returns [of unsupported_env "[crash_attempt]" init]
  by (simp add: unsupported_env_def init_def)

subsection \<open>Shutdown\<close>

text \<open>
  C4, at a shutdown that falls into the decorator's sleep: the gateway exits while
  \<^verbatim>\<open>shutting_down\<close> is false, so \<^verbatim>\<open>run_janus\<close> raises and the decorator sleeps;
  \<^verbatim>\<open>shutdown\<close> runs during the sleep; the decorator then calls \<^verbatim>\<open>run_janus\<close> again, which
  launches the gateway before it reads the flag. The thread returns with the flag set and a
  gateway process that \<^verbatim>\<open>shutdown\<close> never saw.
\<close>

theorem relaunch_after_shutdown:
  "fst (run_janus_forever supported_env [crash_attempt, stopped_attempt] init) = Returned \<and>
   trace (snd (run_janus_forever supported_env [crash_attempt, stopped_attempt] init)) =
     [Popen_setup ''token'' ''true'', Popen_run, Sleep 1, Proc_terminate, Popen_run] \<and>
   shutting_down (snd (run_janus_forever supported_env [crash_attempt, stopped_attempt] init)) \<and>
   janus_proc (snd (run_janus_forever supported_env [crash_attempt, stopped_attempt] init)) = Some (Proc 1)"
  by (simp add: run_janus_forever_def setup_janus_config_def supported_env_def crash_attempt_def
       stopped_attempt_def run_janus_def shutdown_def init_def emit_def write_log_def launches_def Let_def)

subsection \<open>The retry of the launch\<close>



end
